theory Spec2Isabelle
  imports Main "HOL-Library.Word"
begin

section \<open>Network broker data\<close>

text \<open>
  The enumerations and the class \<open>NetworkBrokerData\<close> of
  \<open>src/helics/network/NetworkBrokerData.hpp\<close>. A C++ \<open>int\<close> member that is only
  stored and compared is modelled by its value as an \<open>int\<close>; the record's default value
  is what the in-class member initialisers give under \<open>NetworkBrokerData() = default\<close>.
\<close>

datatype InterfaceNetworks = LOCAL | IPV4 | IPV6 | ALL

datatype InterfaceTypes = TCP | UDP | IP | IPC | INPROC

datatype ServerModeOptions =
    UNSPECIFIED
  | SERVER_DEFAULT_ACTIVE
  | SERVER_DEFAULT_DEACTIVATED
  | SERVER_ACTIVE
  | SERVER_DEACTIVATED

record NetworkBrokerData =
  brokerName :: string
  brokerAddress :: string
  localInterface :: string
  brokerInitString :: string
  connectionAddress :: string
  portNumber :: int
  brokerPort :: int
  connectionPort :: int
  portStart :: int
  maxMessageSize :: int
  maxMessageCount :: int
  maxRetries :: int
  interfaceNetwork :: InterfaceNetworks
  reuse_address :: bool
  use_os_port :: bool
  autobroker :: bool
  appendNameToAddress :: bool
  noAckConnection :: bool
  useJsonSerialization :: bool
  server_mode :: ServerModeOptions
  allowedType :: InterfaceTypes

definition NetworkBrokerData_default :: NetworkBrokerData where
  "NetworkBrokerData_default =
     \<lparr> brokerName = [], brokerAddress = [], localInterface = [],
       brokerInitString = [], connectionAddress = [],
       portNumber = - 1, brokerPort = - 1, connectionPort = - 1,
       portStart = - 1, maxMessageSize = 16 * 256, maxMessageCount = 256, maxRetries = 5,
       interfaceNetwork = LOCAL, reuse_address = False, use_os_port = False,
       autobroker = False, appendNameToAddress = False, noAckConnection = False,
       useJsonSerialization = False, server_mode = UNSPECIFIED, allowedType = IP \<rparr>"

text \<open>The constructor \<open>NetworkBrokerData(InterfaceTypes type)\<close> and \<open>setInterfaceType\<close>.\<close>

definition NetworkBrokerData_of_type :: "InterfaceTypes \<Rightarrow> NetworkBrokerData" where
  "NetworkBrokerData_of_type type = NetworkBrokerData_default \<lparr> allowedType := type \<rparr>"

definition setInterfaceType :: "InterfaceTypes \<Rightarrow> NetworkBrokerData \<Rightarrow> NetworkBrokerData" where
  "setInterfaceType type d = d \<lparr> allowedType := type \<rparr>"

section \<open>Action messages and the command queue\<close>

text \<open>
  The action tags the dispatcher switches on; every other action code (time requests,
  registrations, value payloads, ...) is a \<open>CMD_DOMAIN\<close> with its code.
\<close>

datatype action_t =
    CMD_TICK
  | CMD_IGNORE
  | CMD_TERMINATE_IMMEDIATELY
  | CMD_STOP
  | CMD_DOMAIN int

text \<open>
  Modelled from the spec: the flag enumeration and the macros \<open>SET_ACTION_FLAG\<close> and
  \<open>CHECK_ACTION_FLAG\<close> are declared in a header that is not among the sources. The spec
  describes the flags of a message as a bitfield that includes \<open>error_flag\<close>; the
  bitfield is the set of the flags that are raised.
\<close>

datatype action_flag = error_flag | other_flag nat

record ActionMessage =
  action :: action_t
  source_id :: int
  dest_id :: int
  flags :: "action_flag set"
  payload :: string

definition SET_ACTION_FLAG :: "ActionMessage \<Rightarrow> action_flag \<Rightarrow> ActionMessage" where
  "SET_ACTION_FLAG M flag = M \<lparr> flags := insert flag (flags M) \<rparr>"

definition CHECK_ACTION_FLAG :: "ActionMessage \<Rightarrow> action_flag \<Rightarrow> bool" where
  "CHECK_ACTION_FLAG M flag = (flag \<in> flags M)"

text \<open>
  Modelled from the spec: the converting constructor \<open>ActionMessage (action)\<close>, used where
  the source passes a bare action such as \<open>CMD_TICK\<close>. It gives a message with that tag
  and nothing else set.
\<close>

definition ActionMessage_of :: "action_t \<Rightarrow> ActionMessage" where
  "ActionMessage_of a =
     \<lparr> action = a, source_id = 0, dest_id = 0, flags = {}, payload = [] \<rparr>"

text \<open>
  What a call can throw: the handler \<open>catch (std::exception &e)\<close> catches the
  exceptions derived from \<open>std::exception\<close> and no others.
\<close>

datatype thrown = std_exception | non_std_exception

text \<open>
  Modelled from the spec: the two-lane queue (section 4.3), whose class is not among the
  sources. \<open>push\<close> and \<open>emplace\<close> append to the normal lane, \<open>pushPriority\<close> and
  \<open>emplacePriority\<close> to the priority lane. The argument \<open>fault\<close> is what the call
  throws, if anything (an allocation failure, say); a call that throws leaves the queue
  as it was.
\<close>

record BlockingPriorityQueue =
  priorityLane :: "ActionMessage list"
  normalLane :: "ActionMessage list"

definition push ::
  "thrown option \<Rightarrow> ActionMessage \<Rightarrow> BlockingPriorityQueue \<Rightarrow> thrown + BlockingPriorityQueue"
where
  "push fault m q =
     (case fault of
        Some e \<Rightarrow> Inl e
      | None \<Rightarrow> Inr (q \<lparr> normalLane := normalLane q @ [m] \<rparr>))"

definition pushPriority ::
  "thrown option \<Rightarrow> ActionMessage \<Rightarrow> BlockingPriorityQueue \<Rightarrow> thrown + BlockingPriorityQueue"
where
  "pushPriority fault m q =
     (case fault of
        Some e \<Rightarrow> Inl e
      | None \<Rightarrow> Inr (q \<lparr> priorityLane := priorityLane q @ [m] \<rparr>))"

text \<open>
  \<open>BrokerBase::addActionMessage\<close> (both overloads route alike; the second moves the
  message). The predicate \<open>isPriorityCommand\<close> is declared outside the sources and is a
  parameter.
\<close>

definition addActionMessage ::
  "(ActionMessage \<Rightarrow> bool) \<Rightarrow> thrown option \<Rightarrow> ActionMessage \<Rightarrow> BlockingPriorityQueue
     \<Rightarrow> thrown + BlockingPriorityQueue"
where
  "addActionMessage isPriorityCommand fault m q =
     (if isPriorityCommand m then pushPriority fault m q else push fault m q)"

section \<open>The tick timer's completion handler\<close>

text \<open>
  The completion status the timer hands to the handler: success, the cancellation code
  \<open>boost::asio::error::operation_aborted\<close>, or any other error value.
\<close>

datatype error_code = success | operation_aborted | other_error int

text \<open>
  \<open>timerTickHandler (bbase, active, error)\<close>. The argument \<open>p\<close> is the value read from
  the guarded flag under its lock, \<open>q\<close> the queue of \<open>bbase\<close>. The result is the
  exception that leaves the handler, or the queue together with the lines written to
  \<open>std::cout\<close>.
\<close>

definition timerTickHandler ::
  "(ActionMessage \<Rightarrow> bool) \<Rightarrow> thrown option \<Rightarrow> bool \<Rightarrow> error_code \<Rightarrow> BlockingPriorityQueue
     \<Rightarrow> thrown + (BlockingPriorityQueue \<times> string list)"
where
  "timerTickHandler isPriorityCommand fault p error q =
     (if p then
        (if error \<noteq> operation_aborted then
           (case addActionMessage isPriorityCommand fault (ActionMessage_of CMD_TICK) q of
              Inr q' \<Rightarrow> Inr (q', [])
            | Inl std_exception \<Rightarrow> Inr (q, [''exception caught from addActionMessage''])
            | Inl non_std_exception \<Rightarrow> Inl non_std_exception)
         else
           (let M = SET_ACTION_FLAG (ActionMessage_of CMD_TICK) error_flag in
            case addActionMessage isPriorityCommand fault M q of
              Inr q' \<Rightarrow> Inr (q', [])
            | Inl e \<Rightarrow> Inl e))
      else Inr (q, []))"

section \<open>The broker base: configuration and logging\<close>

text \<open>
  Modelled from the spec: the class \<open>Logger\<close> of \<open>common/logger.h\<close>, which is not among
  the sources. The record keeps what the calls made by \<open>BrokerBase\<close> set and, in
  \<open>logged\<close>, the level and text of every message handed to \<open>log\<close>.
\<close>

record Logger =
  openedFile :: "string option"
  running :: bool
  levelConsole :: int
  levelFile :: int
  logged :: "(int \<times> string) list"

definition Logger_new :: Logger where
  "Logger_new =
     \<lparr> openedFile = None, running = False, levelConsole = 0, levelFile = 0, logged = [] \<rparr>"

definition openFile :: "string \<Rightarrow> Logger \<Rightarrow> Logger" where
  "openFile file l = l \<lparr> openedFile := Some file \<rparr>"

definition startLogging :: "Logger \<Rightarrow> Logger" where
  "startLogging l = l \<lparr> running := True \<rparr>"

definition startLogging_levels :: "int \<Rightarrow> int \<Rightarrow> Logger \<Rightarrow> Logger" where
  "startLogging_levels cLevel fLevel l =
     l \<lparr> running := True, levelConsole := cLevel, levelFile := fLevel \<rparr>"

definition haltLogging :: "Logger \<Rightarrow> Logger" where
  "haltLogging l = l \<lparr> running := False \<rparr>"

definition isRunning :: "Logger \<Rightarrow> bool" where
  "isRunning l = running l"

definition changeLevels :: "int \<Rightarrow> int \<Rightarrow> Logger \<Rightarrow> Logger" where
  "changeLevels cLevel fLevel l = l \<lparr> levelConsole := cLevel, levelFile := fLevel \<rparr>"

definition log :: "int \<Rightarrow> string \<Rightarrow> Logger \<Rightarrow> Logger" where
  "log level logMessage l = l \<lparr> logged := logged l @ [(level, logMessage)] \<rparr>"

text \<open>
  The members of \<open>BrokerBase\<close> that the functions below read or write. \<open>loggerFunction\<close>
  tells whether a callable is installed (the test \<open>if (loggerFunction)\<close>), and
  \<open>loggerCalls\<close> lists the calls made to it. \<open>timeCoord\<close> and
  \<open>queue_processing_thread\<close> tell whether the time coordinator has been created and the
  dispatcher thread started.
\<close>

record BrokerBase =
  global_broker_id :: int
  min_federates :: int
  min_brokers :: int
  maxIterations :: int
  "identifier" :: string
  dumplog :: bool
  maxLogLevel :: int
  consoleLogLevel :: int
  fileLogLevel :: int
  logFile :: string
  timeout :: int
  tickTimer :: int
  noAutomaticID :: bool
  timeCoord :: bool
  queue_processing_thread :: bool
  loggingObj :: "Logger option"
  loggerFunction :: bool
  loggerCalls :: "(int \<times> string \<times> string) list"

text \<open>
  The variables map that \<open>argumentParser\<close> fills: one entry for each option it
  registers, of the option's declared value type; \<open>None\<close> is \<open>count (...) = 0\<close>. The
  option \<open>dumplog\<close> takes no value.
\<close>

record variables_map =
  vm_name :: "string option"
  vm_federates :: "int option"
  vm_minfed :: "int option"
  vm_maxiter :: "int option"
  vm_logfile :: "string option"
  vm_loglevel :: "int option"
  vm_fileloglevel :: "int option"
  vm_consoleloglevel :: "int option"
  vm_minbroker :: "int option"
  vm_identifier :: "string option"
  vm_tick :: "int option"
  vm_dumplog :: bool
  vm_timeout :: "int option"
  vm_min :: "int option"

text \<open>
  What ends a call other than a return: the dereference of a null pointer, and
  \<open>std::terminate\<close>, which the move assignment to a \<open>std::thread\<close> that is still
  joinable calls.
\<close>

datatype fault = null_dereference | terminate_called

text \<open>
  \<open>BrokerBase::initializeFromCmdArgs\<close>, from the variables map on. \<open>gen_id\<close> is the
  identifier that \<open>gen_id ()\<close> produces from the process id and a random uuid. The last
  statement assigns the new dispatcher thread to \<open>_queue_processing_thread\<close>: when that
  member already holds a joinable thread the assignment terminates the program.
\<close>

definition set_opt :: "'a option \<Rightarrow> ('a \<Rightarrow> 'b \<Rightarrow> 'b) \<Rightarrow> 'b \<Rightarrow> 'b" where
  "set_opt v upd b = (case v of Some x \<Rightarrow> upd x b | None \<Rightarrow> b)"

definition initializeFromCmdArgs ::
  "variables_map \<Rightarrow> string \<Rightarrow> BrokerBase \<Rightarrow> fault + BrokerBase"
where
  "initializeFromCmdArgs vm gen_id b0 =
     (let b1 = set_opt (vm_min vm) (\<lambda>x b. b \<lparr> min_federates := x \<rparr>) b0;
          b2 = set_opt (vm_minfed vm) (\<lambda>x b. b \<lparr> min_federates := x \<rparr>) b1;
          b3 = set_opt (vm_federates vm) (\<lambda>x b. b \<lparr> min_federates := x \<rparr>) b2;
          b4 = set_opt (vm_minbroker vm) (\<lambda>x b. b \<lparr> min_brokers := x \<rparr>) b3;
          b5 = set_opt (vm_maxiter vm) (\<lambda>x b. b \<lparr> maxIterations := x \<rparr>) b4;
          b6 = set_opt (vm_name vm) (\<lambda>x b. b \<lparr> identifier := x \<rparr>) b5;
          b7 = (if vm_dumplog vm then b6 \<lparr> dumplog := True \<rparr> else b6);
          b8 = set_opt (vm_identifier vm) (\<lambda>x b. b \<lparr> identifier := x \<rparr>) b7;
          b9 = set_opt (vm_loglevel vm) (\<lambda>x b. b \<lparr> maxLogLevel := x \<rparr>) b8;
          b10 = set_opt (vm_logfile vm) (\<lambda>x b. b \<lparr> logFile := x \<rparr>) b9;
          b11 = set_opt (vm_timeout vm) (\<lambda>x b. b \<lparr> timeout := x \<rparr>) b10;
          b12 = set_opt (vm_tick vm) (\<lambda>x b. b \<lparr> tickTimer := x \<rparr>) b11;
          b13 = (if \<not> noAutomaticID b12 \<and> identifier b12 = []
                 then b12 \<lparr> identifier := gen_id \<rparr> else b12);
          b14 = b13 \<lparr> timeCoord := True \<rparr>;
          l0 = Logger_new;
          l1 = (if logFile b14 \<noteq> [] then openFile (logFile b14) l0 else l0);
          l2 = startLogging_levels (maxLogLevel b14) (maxLogLevel b14) l1;
          b15 = b14 \<lparr> loggingObj := Some l2 \<rparr>
      in if queue_processing_thread b15 then Inl terminate_called
         else Inr (b15 \<lparr> queue_processing_thread := True \<rparr>))"

text \<open>
  \<open>BrokerBase::sendToLogger\<close>: the returned flag and the broker with the effect of the
  call on the user's logger function or on the logging object.
\<close>

definition sendToLogger ::
  "int \<Rightarrow> int \<Rightarrow> string \<Rightarrow> string \<Rightarrow> BrokerBase \<Rightarrow> bool \<times> BrokerBase"
where
  "sendToLogger federateID logLevel name message b =
     (if federateID = 0 \<or> federateID = global_broker_id b then
        (if logLevel > maxLogLevel b then (True, b)
         else if loggerFunction b then
           (True, b \<lparr> loggerCalls := loggerCalls b @ [(logLevel, name, message)] \<rparr>)
         else
           (case loggingObj b of
              Some l \<Rightarrow> (True, b \<lparr> loggingObj := Some (log logLevel (name @ ''::'' @ message) l) \<rparr>)
            | None \<Rightarrow> (True, b)))
      else (False, b))"

text \<open>
  \<open>BrokerBase::setLoggerFunction\<close>. \<open>logFunction\<close> tells whether the callable passed in
  is non-empty. With an empty callable the source calls \<open>loggingObj->isRunning ()\<close>
  without testing the pointer: on a null \<open>loggingObj\<close> that is a null dereference.
\<close>

definition setLoggerFunction :: "bool \<Rightarrow> BrokerBase \<Rightarrow> fault + BrokerBase" where
  "setLoggerFunction logFunction b0 =
     (let b = b0 \<lparr> loggerFunction := logFunction \<rparr> in
      if loggerFunction b then
        (case loggingObj b of
           Some l \<Rightarrow>
             (if isRunning l then Inr (b \<lparr> loggingObj := Some (haltLogging l) \<rparr>) else Inr b)
         | None \<Rightarrow> Inr b)
      else
        (case loggingObj b of
           None \<Rightarrow> Inl null_dereference
         | Some l \<Rightarrow>
             (if \<not> isRunning l then Inr (b \<lparr> loggingObj := Some (startLogging l) \<rparr>) else Inr b)))"

text \<open>\<open>BrokerBase::setLogLevels\<close> and \<open>BrokerBase::setLogLevel\<close>.\<close>

definition setLogLevels :: "int \<Rightarrow> int \<Rightarrow> BrokerBase \<Rightarrow> BrokerBase" where
  "setLogLevels consoleLevel fileLevel b0 =
     (let b1 = b0 \<lparr> consoleLogLevel := consoleLevel \<rparr>;
          b2 = b1 \<lparr> fileLogLevel := fileLevel \<rparr>;
          b3 = b2 \<lparr> maxLogLevel := max (consoleLogLevel b2) (fileLogLevel b2) \<rparr>
      in case loggingObj b3 of
           Some l \<Rightarrow>
             b3 \<lparr> loggingObj := Some (changeLevels (consoleLogLevel b3) (fileLogLevel b3) l) \<rparr>
         | None \<Rightarrow> b3)"

definition setLogLevel :: "int \<Rightarrow> BrokerBase \<Rightarrow> BrokerBase" where
  "setLogLevel level b = setLogLevels level level b"

section \<open>Decimal rendering\<close>

text \<open>
  \<open>std::to_string (int)\<close>, and the \<open>%d\<close> directive of \<open>boost::format\<close> on an \<open>int\<close>:
  the decimal digits of the value, after a minus sign when it is negative.
  \<open>digit_char\<close> is only applied to a number below ten.
\<close>

definition digit_char :: "nat \<Rightarrow> char" where
  "digit_char d = ''0123456789'' ! d"

fun to_string_nat :: "nat \<Rightarrow> string" where
  "to_string_nat n =
     (if n < 10 then [digit_char n]
      else to_string_nat (n div 10) @ [digit_char (n mod 10)])"

declare to_string_nat.simps [simp del]

definition to_string :: "int \<Rightarrow> string" where
  "to_string i =
     (if i < 0 then CHR ''-'' # to_string_nat (nat (- i)) else to_string_nat (nat i))"

text \<open>
  Reading a decimal numeral back: the value of a string of digits, and of a string of
  digits after an optional minus sign. These two serve to state what \<open>to_string\<close>
  writes; the code does not contain them.
\<close>

definition digit_value :: "char \<Rightarrow> nat" where
  "digit_value c = of_char c - 48"

definition decimal_value_nat :: "string \<Rightarrow> nat" where
  "decimal_value_nat ds = foldl (\<lambda>a c. 10 * a + digit_value c) 0 ds"

definition decimal_value :: "string \<Rightarrow> int" where
  "decimal_value s =
     (case s of
        [] \<Rightarrow> 0
      | c # ds \<Rightarrow>
          (if c = CHR ''-'' then - int (decimal_value_nat ds)
           else int (decimal_value_nat (c # ds))))"

section \<open>The dispatcher loop\<close>

text \<open>
  What \<open>BrokerBase::queueProcessingLoop\<close> does to the objects around it, in the order it
  does it: arming and cancelling the tick timer, taking and releasing the service loop,
  the stores to \<open>mainLoopIsRunning\<close> and to the guarded flag \<open>active\<close>, and the calls of
  the virtual hooks \<open>processCommand\<close>, \<open>processPriorityCommand\<close> and
  \<open>processDisconnect\<close>, whose bodies belong to the concrete broker.
\<close>

datatype event =
    TimerArm
  | TimerCancel
  | ServiceLoopRun
  | ServiceLoopRelease
  | StoreMainLoopIsRunning bool
  | StoreActive bool
  | Call_processCommand ActionMessage
  | Call_processPriorityCommand ActionMessage
  | Call_processDisconnect

text \<open>
  The locals and members the loop works on. \<open>messagesSinceLastTick\<close> is a C++ \<open>int\<close>
  that the loop increments: a 32-bit word, whose increment wraps (C++ leaves the
  overflow of the increment undefined; the results on whole runs keep the count below
  \<open>2 ^ 31\<close>, where none occurs). \<open>timer_pending\<close> tells whether a wait on the tick
  timer is outstanding, \<open>serviceLoop\<close> whether the handle holds the service loop.
\<close>

record loop_state =
  broker :: BrokerBase
  messagesSinceLastTick :: "32 word"
  dumpMessages :: "ActionMessage list"
  mainLoopIsRunning :: bool
  active :: bool
  timer_pending :: bool
  serviceLoop :: bool
  events :: "event list"

definition emit :: "event \<Rightarrow> loop_state \<Rightarrow> loop_state" where
  "emit e s = s \<lparr> events := events s @ [e] \<rparr>"

text \<open>
  \<open>ticktimer.expires_at (now + tickTimer); ticktimer.async_wait (timerCallback)\<close> and
  \<open>ticktimer.cancel ()\<close>.
\<close>

definition arm_timer :: "loop_state \<Rightarrow> loop_state" where
  "arm_timer s = emit TimerArm (s \<lparr> timer_pending := True \<rparr>)"

definition cancel_timer :: "loop_state \<Rightarrow> loop_state" where
  "cancel_timer s = emit TimerCancel (s \<lparr> timer_pending := False \<rparr>)"

text \<open>
  \<open>serviceLoop = AsioServiceManager::runServiceLoop ()\<close> and \<open>serviceLoop = nullptr\<close>.
\<close>

definition run_service :: "loop_state \<Rightarrow> loop_state" where
  "run_service s = emit ServiceLoopRun (s \<lparr> serviceLoop := True \<rparr>)"

definition release_service :: "loop_state \<Rightarrow> loop_state" where
  "release_service s = emit ServiceLoopRelease (s \<lparr> serviceLoop := False \<rparr>)"

definition store_mainLoopIsRunning :: "bool \<Rightarrow> loop_state \<Rightarrow> loop_state" where
  "store_mainLoopIsRunning v s = emit (StoreMainLoopIsRunning v) (s \<lparr> mainLoopIsRunning := v \<rparr>)"

definition store_active :: "bool \<Rightarrow> loop_state \<Rightarrow> loop_state" where
  "store_active v s = emit (StoreActive v) (s \<lparr> active := v \<rparr>)"

text \<open>
  The text of one dump entry, \<open>boost::format ("|| dl cmd:%s from %d to %d")\<close> fed with
  \<open>prettyPrintString (act)\<close>, \<open>act.source_id\<close> and \<open>act.dest_id\<close>. \<open>prettyPrintString\<close>
  is declared outside the sources and is a parameter.
\<close>

definition dump_line :: "(ActionMessage \<Rightarrow> string) \<Rightarrow> ActionMessage \<Rightarrow> string" where
  "dump_line prettyPrintString act =
     ''|| dl cmd:'' @ prettyPrintString act @ '' from '' @ to_string (source_id act)
       @ '' to '' @ to_string (dest_id act)"

text \<open>
  The lambda \<open>logDump\<close>; \<open>dump_all\<close> is its \<open>for\<close> loop over \<open>dumpMessages\<close>.
\<close>

definition dump_all ::
  "(ActionMessage \<Rightarrow> string) \<Rightarrow> BrokerBase \<Rightarrow> ActionMessage list \<Rightarrow> BrokerBase"
where
  "dump_all prettyPrintString b0 acts =
     foldl (\<lambda>b act. snd (sendToLogger 0 (- 10) (identifier b)
                           (dump_line prettyPrintString act) b))
       b0 acts"

definition logDump :: "(ActionMessage \<Rightarrow> string) \<Rightarrow> loop_state \<Rightarrow> loop_state" where
  "logDump prettyPrintString s =
     (if dumplog (broker s) then
        s \<lparr> broker := dump_all prettyPrintString (broker s) (dumpMessages s) \<rparr>
      else s)"

text \<open>
  The state on entry to the \<open>while (true)\<close>: \<open>mainLoopIsRunning\<close> stored true, the
  service loop taken, the guarded flag created with the value true (recorded as a store)
  and the timer armed.
\<close>

definition loop_entry :: "BrokerBase \<Rightarrow> loop_state" where
  "loop_entry b =
     \<lparr> broker = b, messagesSinceLastTick = 0, dumpMessages = [],
       mainLoopIsRunning = True, active = True, timer_pending = True, serviceLoop = True,
       events = [StoreMainLoopIsRunning True, ServiceLoopRun, StoreActive True, TimerArm] \<rparr>"

text \<open>
  One turn of the loop on the popped \<open>command\<close>. \<open>haltOperations\<close> is the value of the
  member of that name when the turn reads it (other threads and the hooks set it). The
  turn either goes on to the next \<open>pop\<close> or returns from the function. In the
  tick branch the source reads the flags of \<open>command\<close> after having passed it to
  \<open>processCommand (std::move (command))\<close>; the model reads them as they were popped.
\<close>

datatype turn = Continue loop_state | Return loop_state

definition loop_turn ::
  "(ActionMessage \<Rightarrow> bool) \<Rightarrow> (ActionMessage \<Rightarrow> string) \<Rightarrow> ActionMessage \<Rightarrow> bool
     \<Rightarrow> loop_state \<Rightarrow> turn"
where
  "loop_turn isPriorityCommand prettyPrintString command haltOperations s0 =
     (let s = (if dumplog (broker s0)
               then s0 \<lparr> dumpMessages := dumpMessages s0 @ [command] \<rparr> else s0)
      in case action command of
           CMD_TICK \<Rightarrow>
             (let s1 = (if messagesSinceLastTick s = 0
                        then emit (Call_processCommand command) s else s);
                  s2 = (if CHECK_ACTION_FLAG command error_flag
                        then run_service (release_service s1) else s1);
                  s3 = s2 \<lparr> messagesSinceLastTick := 0 \<rparr>
              in Continue (arm_timer s3))
         | CMD_IGNORE \<Rightarrow> Continue s
         | CMD_TERMINATE_IMMEDIATELY \<Rightarrow>
             Return (logDump prettyPrintString
                      (store_active False
                        (store_mainLoopIsRunning False
                          (release_service (cancel_timer s)))))
         | CMD_STOP \<Rightarrow>
             (let s1 = release_service (cancel_timer s) in
              if \<not> haltOperations then
                Return (emit Call_processDisconnect
                         (logDump prettyPrintString
                           (store_active False
                             (store_mainLoopIsRunning False
                               (emit (Call_processCommand command) s1)))))
              else Return s1)
         | CMD_DOMAIN code \<Rightarrow>
             (if \<not> haltOperations then
                (let s1 = s \<lparr> messagesSinceLastTick := messagesSinceLastTick s + 1 \<rparr> in
                 if isPriorityCommand command
                 then Continue (emit (Call_processPriorityCommand command) s1)
                 else Continue (emit (Call_processCommand command) s1))
              else Continue s))"

text \<open>
  The loop over the commands that \<open>pop\<close> delivers, each with the value of
  \<open>haltOperations\<close> during its turn. When the commands run out before a turn returns,
  the loop is blocked in \<open>pop\<close>.
\<close>

datatype outcome = Returned loop_state | Blocked loop_state

fun run_loop ::
  "(ActionMessage \<Rightarrow> bool) \<Rightarrow> (ActionMessage \<Rightarrow> string) \<Rightarrow> (ActionMessage \<times> bool) list
     \<Rightarrow> loop_state \<Rightarrow> outcome"
where
  "run_loop isPriorityCommand prettyPrintString [] s = Blocked s"
| "run_loop isPriorityCommand prettyPrintString ((command, haltOperations) # rest) s =
     (case loop_turn isPriorityCommand prettyPrintString command haltOperations s of
        Continue s' \<Rightarrow> run_loop isPriorityCommand prettyPrintString rest s'
      | Return s' \<Rightarrow> Returned s')"

definition queueProcessingLoop ::
  "(ActionMessage \<Rightarrow> bool) \<Rightarrow> (ActionMessage \<Rightarrow> string) \<Rightarrow> BrokerBase
     \<Rightarrow> (ActionMessage \<times> bool) list \<Rightarrow> outcome"
where
  "queueProcessingLoop isPriorityCommand prettyPrintString b popped =
     run_loop isPriorityCommand prettyPrintString popped (loop_entry b)"

fun final_state :: "outcome \<Rightarrow> loop_state" where
  "final_state (Returned s) = s"
| "final_state (Blocked s) = s"

section \<open>Indexed registration in the value federate\<close>

text \<open>
  The member templates of \<open>ValueFederate\<close>. The registration functions they forward to
  (\<open>registerGlobalPublication\<close>, \<open>registerGlobalInput\<close> and \<open>registerSubscription\<close> with
  explicit strings) are declared only and are parameters, of any result type; \<open>typeX\<close>
  is the string \<open>ValueConverter<X>::type ()\<close> of the template argument.
\<close>

definition registerGlobalPublication_X ::
  "(string \<Rightarrow> string \<Rightarrow> string \<Rightarrow> 'r) \<Rightarrow> string \<Rightarrow> string \<Rightarrow> string \<Rightarrow> 'r"
where
  "registerGlobalPublication_X registerGlobalPublication typeX key units =
     registerGlobalPublication key typeX units"

definition registerPublicationIndexed ::
  "(string \<Rightarrow> string \<Rightarrow> string \<Rightarrow> 'r) \<Rightarrow> string \<Rightarrow> string \<Rightarrow> int \<Rightarrow> string \<Rightarrow> 'r"
where
  "registerPublicationIndexed registerGlobalPublication typeX key index1 units =
     registerGlobalPublication_X registerGlobalPublication typeX
       (key @ [CHR ''_''] @ to_string index1) units"

definition registerPublicationIndexed2 ::
  "(string \<Rightarrow> string \<Rightarrow> string \<Rightarrow> 'r) \<Rightarrow> string \<Rightarrow> string \<Rightarrow> int \<Rightarrow> int \<Rightarrow> string \<Rightarrow> 'r"
where
  "registerPublicationIndexed2 registerGlobalPublication typeX key index1 index2 units =
     registerGlobalPublication_X registerGlobalPublication typeX
       (key @ [CHR ''_''] @ to_string index1 @ [CHR ''_''] @ to_string index2) units"

definition registerGlobalInput_X ::
  "(string \<Rightarrow> string \<Rightarrow> string \<Rightarrow> 'r) \<Rightarrow> string \<Rightarrow> string \<Rightarrow> string \<Rightarrow> 'r"
where
  "registerGlobalInput_X registerGlobalInput typeX key units =
     registerGlobalInput key typeX units"

definition registerInputIndexed ::
  "(string \<Rightarrow> string \<Rightarrow> string \<Rightarrow> 'r) \<Rightarrow> string \<Rightarrow> string \<Rightarrow> int \<Rightarrow> string \<Rightarrow> 'r"
where
  "registerInputIndexed registerGlobalInput typeX key index1 units =
     registerGlobalInput_X registerGlobalInput typeX
       (key @ [CHR ''_''] @ to_string index1) units"

definition registerInputIndexed2 ::
  "(string \<Rightarrow> string \<Rightarrow> string \<Rightarrow> 'r) \<Rightarrow> string \<Rightarrow> string \<Rightarrow> int \<Rightarrow> int \<Rightarrow> string \<Rightarrow> 'r"
where
  "registerInputIndexed2 registerGlobalInput typeX key index1 index2 units =
     registerGlobalInput_X registerGlobalInput typeX
       (key @ [CHR ''_''] @ to_string index1 @ [CHR ''_''] @ to_string index2) units"

definition registerSubscriptionIndexed ::
  "(string \<Rightarrow> string \<Rightarrow> 'r) \<Rightarrow> string \<Rightarrow> int \<Rightarrow> string \<Rightarrow> 'r"
where
  "registerSubscriptionIndexed registerSubscription target index1 units =
     registerSubscription (target @ [CHR ''_''] @ to_string index1) units"

definition registerSubscriptionIndexed2 ::
  "(string \<Rightarrow> string \<Rightarrow> 'r) \<Rightarrow> string \<Rightarrow> int \<Rightarrow> int \<Rightarrow> string \<Rightarrow> 'r"
where
  "registerSubscriptionIndexed2 registerSubscription target index1 index2 units =
     registerSubscription
       (target @ [CHR ''_''] @ to_string index1 @ [CHR ''_''] @ to_string index2) units"

section \<open>Observations on a run of the dispatcher\<close>

text \<open>The commands on which the loop returns.\<close>

definition terminating :: "ActionMessage \<Rightarrow> bool" where
  "terminating c = (action c = CMD_TERMINATE_IMMEDIATELY \<or> action c = CMD_STOP)"



text \<open>
  The tick messages among the arguments of the calls of \<open>processCommand\<close>, and among
  the arguments of the calls of either hook that takes a command.
\<close>

fun processCommand_ticks :: "event list \<Rightarrow> ActionMessage list" where
  "processCommand_ticks [] = []"
| "processCommand_ticks (Call_processCommand m # es) =
     (if action m = CMD_TICK then m # processCommand_ticks es else processCommand_ticks es)"
| "processCommand_ticks (e # es) = processCommand_ticks es"

fun hook_ticks :: "event list \<Rightarrow> ActionMessage list" where
  "hook_ticks [] = []"
| "hook_ticks (Call_processCommand m # es) =
     (if action m = CMD_TICK then m # hook_ticks es else hook_ticks es)"
| "hook_ticks (Call_processPriorityCommand m # es) =
     (if action m = CMD_TICK then m # hook_ticks es else hook_ticks es)"
| "hook_ticks (e # es) = hook_ticks es"

text \<open>
  A command counts towards \<open>messagesSinceLastTick\<close> when it reaches the default branch
  of the switch while \<open>haltOperations\<close> is false. \<open>counted_before_each_tick n popped\<close>:
  with \<open>n\<close> commands counted so far since the last tick (or since the loop began), every
  tick that the loop pops from \<open>popped\<close> comes after at least one counted command, and
  after fewer than \<open>2 ^ 31\<close> of them (the increments of the C++ \<open>int\<close> then stay within
  its range).
\<close>

fun counted_before_each_tick :: "nat \<Rightarrow> (ActionMessage \<times> bool) list \<Rightarrow> bool" where
  "counted_before_each_tick n [] = True"
| "counted_before_each_tick n ((c, halt) # rest) =
     (case action c of
        CMD_TICK \<Rightarrow> 0 < n \<and> n < 2 ^ 31 \<and> counted_before_each_tick 0 rest
      | CMD_IGNORE \<Rightarrow> counted_before_each_tick n rest
      | CMD_TERMINATE_IMMEDIATELY \<Rightarrow> True
      | CMD_STOP \<Rightarrow> True
      | CMD_DOMAIN code \<Rightarrow> counted_before_each_tick (if halt then n else Suc n) rest)"

text \<open>
  The condition of the spec's testable property 3, in its words: no two adjacent
  commands are ticks, that is, at least one non-tick command lies between consecutive
  ticks.
\<close>

fun nontick_between_ticks :: "ActionMessage list \<Rightarrow> bool" where
  "nontick_between_ticks (c # d # rest) =
     (\<not> (action c = CMD_TICK \<and> action d = CMD_TICK) \<and> nontick_between_ticks (d # rest))"
| "nontick_between_ticks cs = True"

text \<open>Some occurrence of \<open>x\<close> comes before some occurrence of \<open>y\<close> in the list.\<close>

fun occurs_before :: "'a \<Rightarrow> 'a \<Rightarrow> 'a list \<Rightarrow> bool" where
  "occurs_before x y [] = False"
| "occurs_before x y (e # es) = ((e = x \<and> y \<in> set es) \<or> occurs_before x y es)"



section \<open>Example configurations and runs\<close>

definition example_broker :: BrokerBase where
  "example_broker =
     \<lparr> global_broker_id = 7, min_federates = 1, min_brokers = 1, maxIterations = 3,
       identifier = ''brk'', dumplog = True, maxLogLevel = 1, consoleLogLevel = 1,
       fileLogLevel = 1, logFile = [], timeout = 0, tickTimer = 500,
       noAutomaticID = False, timeCoord = True, queue_processing_thread = True,
       loggingObj = Some (startLogging_levels 1 1 Logger_new),
       loggerFunction = False, loggerCalls = [] \<rparr>"

text \<open>
  A broker on which \<open>initializeFromCmdArgs\<close> has not run yet: no time coordinator, no
  logging object, no dispatcher thread.
\<close>

definition fresh_broker :: BrokerBase where
  "fresh_broker =
     \<lparr> global_broker_id = 7, min_federates = 1, min_brokers = 1, maxIterations = 3,
       identifier = ''brk'', dumplog = False, maxLogLevel = 1, consoleLogLevel = 1,
       fileLogLevel = 1, logFile = [], timeout = 0, tickTimer = 500,
       noAutomaticID = False, timeCoord = False, queue_processing_thread = False,
       loggingObj = None, loggerFunction = False, loggerCalls = [] \<rparr>"

text \<open>
  The variables map of a command line without options, and the one of
  \<open>--fileloglevel 3 --consoleloglevel 0\<close>.
\<close>

definition no_options :: variables_map where
  "no_options =
     \<lparr> vm_name = None, vm_federates = None, vm_minfed = None, vm_maxiter = None,
       vm_logfile = None, vm_loglevel = None, vm_fileloglevel = None,
       vm_consoleloglevel = None, vm_minbroker = None, vm_identifier = None,
       vm_tick = None, vm_dumplog = False, vm_timeout = None, vm_min = None \<rparr>"

definition file_and_console_levels :: variables_map where
  "file_and_console_levels =
     no_options \<lparr> vm_fileloglevel := Some 3, vm_consoleloglevel := Some 0 \<rparr>"

definition empty_queue :: BlockingPriorityQueue where
  "empty_queue = \<lparr> priorityLane = [], normalLane = [] \<rparr>"

text \<open>
  Three runs in which no two adjacent commands are ticks: a lone tick; a domain command,
  a tick, an ignored command and a second tick; and the same with, between the ticks, a
  domain command popped while \<open>haltOperations\<close> is set.
\<close>

definition lone_tick :: "(ActionMessage \<times> bool) list" where
  "lone_tick = [(ActionMessage_of CMD_TICK, False)]"

definition ignore_between_ticks :: "(ActionMessage \<times> bool) list" where
  "ignore_between_ticks =
     [(ActionMessage_of (CMD_DOMAIN 1), False), (ActionMessage_of CMD_TICK, False),
      (ActionMessage_of CMD_IGNORE, False), (ActionMessage_of CMD_TICK, False)]"

definition halted_between_ticks :: "(ActionMessage \<times> bool) list" where
  "halted_between_ticks =
     [(ActionMessage_of (CMD_DOMAIN 1), False), (ActionMessage_of CMD_TICK, False),
      (ActionMessage_of (CMD_DOMAIN 2), True), (ActionMessage_of CMD_TICK, False)]"

text \<open>A domain command before each of two ticks, then a stop.\<close>

definition busy_run :: "(ActionMessage \<times> bool) list" where
  "busy_run =
     [(ActionMessage_of (CMD_DOMAIN 1), False), (ActionMessage_of CMD_TICK, False),
      (ActionMessage_of CMD_IGNORE, False), (ActionMessage_of (CMD_DOMAIN 2), False),
      (ActionMessage_of CMD_TICK, False), (ActionMessage_of CMD_STOP, False)]"

text \<open>
  Runs that end the loop: a lone \<open>CMD_TERMINATE_IMMEDIATELY\<close>, a lone \<open>CMD_STOP\<close>, and
  a lone \<open>CMD_STOP\<close> popped while \<open>haltOperations\<close> is set. \<open>quiet_broker\<close> is the
  example broker after \<open>--loglevel -20\<close>.
\<close>

definition terminate_only :: "(ActionMessage \<times> bool) list" where
  "terminate_only = [(ActionMessage_of CMD_TERMINATE_IMMEDIATELY, False)]"

definition stop_only :: "(ActionMessage \<times> bool) list" where
  "stop_only = [(ActionMessage_of CMD_STOP, False)]"



definition no_priority :: "ActionMessage \<Rightarrow> bool" where
  "no_priority m = False"

definition pretty_action :: "ActionMessage \<Rightarrow> string" where
  "pretty_action m =
     (case action m of
        CMD_TICK \<Rightarrow> ''tick''
      | CMD_IGNORE \<Rightarrow> ''ignore''
      | CMD_TERMINATE_IMMEDIATELY \<Rightarrow> ''terminate''
      | CMD_STOP \<Rightarrow> ''stop''
      | CMD_DOMAIN code \<Rightarrow> ''cmd'')"

section \<open>Properties of the network broker data\<close>

text \<open>
  Claim C9. A default-constructed \<open>NetworkBrokerData\<close> has each of the four port
  members (\<open>portNumber\<close>, \<open>brokerPort\<close>, \<open>connectionPort\<close>, \<open>portStart\<close>) equal to
  \<open>-1\<close>, \<open>maxMessageSize\<close> equal to \<open>16 * 256\<close>, \<open>maxMessageCount\<close> equal to \<open>256\<close> and
  \<open>maxRetries\<close> equal to \<open>5\<close>.
\<close>

theorem NetworkBrokerData_default_values:
  "portNumber NetworkBrokerData_default = - 1
   \<and> brokerPort NetworkBrokerData_default = - 1
   \<and> connectionPort NetworkBrokerData_default = - 1
   \<and> portStart NetworkBrokerData_default = - 1
   \<and> maxMessageSize NetworkBrokerData_default = 16 * 256
   \<and> maxMessageCount NetworkBrokerData_default = 256
   \<and> maxRetries NetworkBrokerData_default = 5"
  by (simp add: NetworkBrokerData_default_def)

section \<open>Properties of the indexed registration\<close>

lemma digit_char_is_digit:
  assumes "d < 10"
  shows "digit_char d \<in> set ''0123456789'' \<and> digit_value (digit_char d) = d"
proof -
  from assms have "d = 0 \<or> d = 1 \<or> d = 2 \<or> d = 3 \<or> d = 4 \<or> d = 5
      \<or> d = 6 \<or> d = 7 \<or> d = 8 \<or> d = 9"
    by arith
  then show ?thesis
    by (elim disjE) (simp_all add: digit_char_def digit_value_def)
qed

lemma decimal_value_nat_snoc:
  "decimal_value_nat (ds @ [c]) = 10 * decimal_value_nat ds + digit_value c"
  by (simp add: decimal_value_nat_def)

lemma decimal_value_nat_to_string_nat:
  "decimal_value_nat (to_string_nat n) = n"
proof (induction n rule: to_string_nat.induct)
  case (1 n)
  show ?case
  proof (cases "n < 10")
    case True
    then have "to_string_nat n = [digit_char n]" by (simp add: to_string_nat.simps)
    with True show ?thesis
      by (simp add: decimal_value_nat_def digit_char_is_digit)
  next
    case False
    then have unfold: "to_string_nat n = to_string_nat (n div 10) @ [digit_char (n mod 10)]"
      by (simp add: to_string_nat.simps)
    from False "1.IH" have "decimal_value_nat (to_string_nat (n div 10)) = n div 10" by simp
    then show ?thesis
      unfolding unfold by (simp add: decimal_value_nat_snoc digit_char_is_digit)
  qed
qed

lemma to_string_nat_digits:
  "to_string_nat n \<noteq> [] \<and> set (to_string_nat n) \<subseteq> set ''0123456789''"
proof (induction n rule: to_string_nat.induct)
  case (1 n)
  show ?case
  proof (cases "n < 10")
    case True
    then have "to_string_nat n = [digit_char n]" by (simp add: to_string_nat.simps)
    with True digit_char_is_digit [of n] show ?thesis by simp
  next
    case False
    then have unfold: "to_string_nat n = to_string_nat (n div 10) @ [digit_char (n mod 10)]"
      by (simp add: to_string_nat.simps)
    have "n mod 10 < 10" by simp
    from digit_char_is_digit [OF this] False "1.IH" show ?thesis
      unfolding unfold by simp
  qed
qed

lemma decimal_value_to_string:
  "decimal_value (to_string i) = i"
proof (cases "i < 0")
  case True
  then show ?thesis
    by (simp add: to_string_def decimal_value_def decimal_value_nat_to_string_nat)
next
  case False
  from to_string_nat_digits [of "nat i"] obtain c ds where
    split: "to_string_nat (nat i) = c # ds" and digit: "c \<in> set ''0123456789''"
    by (cases "to_string_nat (nat i)") auto
  from digit have "c \<noteq> CHR ''-''" by auto
  moreover have "decimal_value_nat (c # ds) = nat i"
    using decimal_value_nat_to_string_nat [of "nat i"] split by simp
  ultimately show ?thesis
    using False split by (simp add: to_string_def decimal_value_def)
qed

lemma to_string_examples:
  "to_string 3 = ''3'' \<and> to_string (- 12) = ''-12'' \<and> to_string 0 = ''0''
   \<and> to_string 10 = ''10'' \<and> to_string 7 = ''7'' \<and> to_string 42 = ''42''
   \<and> to_string 1 = ''1'' \<and> to_string 2147483647 = ''2147483647''
   \<and> to_string (- 2147483648) = ''-2147483648''"
  by (simp add: to_string_def to_string_nat.simps digit_char_def)

text \<open>
  Claim C8. For every key (or target), units and indices, an indexed registration
  registers the key suffixed with the indices: \<open>registerPublicationIndexed\<close> calls
  \<open>registerGlobalPublication\<close> with the key \<open>key + "_" + i1\<close> (\<open>key + "_" + i1 + "_" + i2\<close>
  in the two-index form), the type of the template argument and the units;
  \<open>registerInputIndexed\<close> calls \<open>registerGlobalInput\<close> likewise, and
  \<open>registerSubscriptionIndexed\<close> calls \<open>registerSubscription\<close> with the suffixed target
  and the units. Each index is written as its decimal numeral, which reads back as the
  index; so \<open>("pub", 3)\<close> registers \<open>"pub_3"\<close> and \<open>("pub", -12, 2147483647)\<close> registers
  \<open>"pub_-12_2147483647"\<close>.
\<close>

theorem indexed_registration_suffix:
  "registerPublicationIndexed regP typeX key i1 units
     = regP (key @ ''_'' @ to_string i1) typeX units
   \<and> registerPublicationIndexed2 regP typeX key i1 i2 units
     = regP (key @ ''_'' @ to_string i1 @ ''_'' @ to_string i2) typeX units
   \<and> registerInputIndexed regI typeX key i1 units
     = regI (key @ ''_'' @ to_string i1) typeX units
   \<and> registerInputIndexed2 regI typeX key i1 i2 units
     = regI (key @ ''_'' @ to_string i1 @ ''_'' @ to_string i2) typeX units
   \<and> registerSubscriptionIndexed regS target i1 units
     = regS (target @ ''_'' @ to_string i1) units
   \<and> registerSubscriptionIndexed2 regS target i1 i2 units
     = regS (target @ ''_'' @ to_string i1 @ ''_'' @ to_string i2) units
   \<and> registerGlobalPublication_X regP typeX key units = regP key typeX units
   \<and> registerGlobalInput_X regI typeX key units = regI key typeX units
   \<and> decimal_value (to_string i1) = i1 \<and> decimal_value (to_string i2) = i2
   \<and> registerPublicationIndexed regP typeX ''pub'' 3 units = regP ''pub_3'' typeX units
   \<and> registerPublicationIndexed2 regP typeX ''pub'' (- 12) 2147483647 units
     = regP ''pub_-12_2147483647'' typeX units
   \<and> registerInputIndexed regI typeX ''in'' 10 units = regI ''in_10'' typeX units
   \<and> registerInputIndexed2 regI typeX ''in'' 0 7 units = regI ''in_0_7'' typeX units
   \<and> registerSubscriptionIndexed regS ''pub'' 42 units = regS ''pub_42'' units
   \<and> registerSubscriptionIndexed2 regS ''pub'' 1 (- 2147483648) units
     = regS ''pub_1_-2147483648'' units"
  by (simp add: registerPublicationIndexed_def registerPublicationIndexed2_def
      registerInputIndexed_def registerInputIndexed2_def
      registerSubscriptionIndexed_def registerSubscriptionIndexed2_def
      registerGlobalPublication_X_def registerGlobalInput_X_def
      decimal_value_to_string to_string_examples)

section \<open>Properties of the tick timer's handler\<close>

text \<open>
  Claim C2, as the spec states it: every firing of the tick timer enqueues a
  \<open>CMD_TICK\<close>, with \<open>error_flag\<close> when the completion indicates an error and without it
  on a normal firing. It fails for the firings that enqueue nothing. While the guarded
  flag is inactive (after a teardown), an aborted firing and a normal firing both leave
  the queue as it was; and when the push throws on a normal firing, the exception is
  caught, a line is printed and the queue is left as it was.
\<close>

theorem timerTickHandler_no_enqueue_counterexample:
  "timerTickHandler no_priority None False operation_aborted empty_queue
     = Inr (empty_queue, [])
   \<and> timerTickHandler no_priority None False success empty_queue
     = Inr (empty_queue, [])
   \<and> timerTickHandler no_priority (Some std_exception) True success empty_queue
     = Inr (empty_queue, [''exception caught from addActionMessage''])
   \<and> priorityLane empty_queue = [] \<and> normalLane empty_queue = []"
  by (simp add: timerTickHandler_def addActionMessage_def push_def no_priority_def
      empty_queue_def)

text \<open>
  Claim C2, amended. For every firing of the tick timer while the guarded flag is
  active and the enqueue does not throw, the handler enqueues exactly one message, a
  \<open>CMD_TICK\<close> with nothing else set, in the lane \<open>addActionMessage\<close> chooses: a firing
  whose completion indicates the error \<open>operation_aborted\<close> (the error with which a
  wait on the timer completes) attaches \<open>error_flag\<close> to it, and a normal firing
  enqueues it without \<open>error_flag\<close>. While the flag is inactive the handler enqueues
  nothing.
\<close>

theorem timerTickHandler_enqueues_tick:
  "(\<exists>M. action M = CMD_TICK
        \<and> (error_flag \<in> flags M) = (err = operation_aborted)
        \<and> flags M \<subseteq> {error_flag}
        \<and> source_id M = 0 \<and> dest_id M = 0 \<and> payload M = []
        \<and> timerTickHandler isP None True err q
            = Inr (if isP M then q \<lparr> priorityLane := priorityLane q @ [M] \<rparr>
                   else q \<lparr> normalLane := normalLane q @ [M] \<rparr>, []))
   \<and> timerTickHandler isP fault False err q = Inr (q, [])"
proof (cases "err = operation_aborted")
  case True
  let ?M = "SET_ACTION_FLAG (ActionMessage_of CMD_TICK) error_flag"
  have "timerTickHandler isP None True err q
            = Inr (if isP ?M then q \<lparr> priorityLane := priorityLane q @ [?M] \<rparr>
                   else q \<lparr> normalLane := normalLane q @ [?M] \<rparr>, [])"
    using True
    by (simp add: timerTickHandler_def addActionMessage_def push_def pushPriority_def Let_def)
  moreover have "action ?M = CMD_TICK \<and> error_flag \<in> flags ?M \<and> flags ?M \<subseteq> {error_flag}
      \<and> source_id ?M = 0 \<and> dest_id ?M = 0 \<and> payload ?M = []"
    by (simp add: SET_ACTION_FLAG_def ActionMessage_of_def)
  ultimately show ?thesis using True
    by (intro conjI exI [of _ ?M]) (simp_all add: timerTickHandler_def)
next
  case False
  let ?M = "ActionMessage_of CMD_TICK"
  have "timerTickHandler isP None True err q
            = Inr (if isP ?M then q \<lparr> priorityLane := priorityLane q @ [?M] \<rparr>
                   else q \<lparr> normalLane := normalLane q @ [?M] \<rparr>, [])"
    using False
    by (simp add: timerTickHandler_def addActionMessage_def push_def pushPriority_def)
  moreover have "action ?M = CMD_TICK \<and> error_flag \<notin> flags ?M \<and> flags ?M \<subseteq> {error_flag}
      \<and> source_id ?M = 0 \<and> dest_id ?M = 0 \<and> payload ?M = []"
    by (simp add: ActionMessage_of_def)
  ultimately show ?thesis using False
    by (intro conjI exI [of _ ?M]) (simp_all add: timerTickHandler_def)
qed

text \<open>
  Claim C4. An exception thrown inside \<open>addActionMessage\<close> should not leave the handler
  on any branch. The code swallows it only on the branch of a firing that was not
  aborted, where the call stands in a \<open>try\<close> block: there an exception derived from
  \<open>std::exception\<close> is caught and reported on \<open>std::cout\<close>. On the branch of an aborted
  firing the call stands outside any \<open>try\<close> block, and whatever \<open>addActionMessage\<close>
  throws leaves the handler.
\<close>

theorem timerTickHandler_aborted_propagates:
  "timerTickHandler isP (Some e) True operation_aborted q = Inl e
   \<and> timerTickHandler isP (Some std_exception) True success q
       = Inr (q, [''exception caught from addActionMessage''])
   \<and> timerTickHandler isP (Some std_exception) True (other_error n) q
       = Inr (q, [''exception caught from addActionMessage''])"
  by (simp add: timerTickHandler_def addActionMessage_def push_def pushPriority_def Let_def)

section \<open>Properties of the configuration intake and of logging\<close>

lemma set_opt_preserves:
  "(\<And>x b. g (upd x b) = g b) \<Longrightarrow> g (set_opt v upd b) = g b"
  by (cases v) (simp_all add: set_opt_def)

lemma set_opt_simps:
  "set_opt None upd b = b" "set_opt (Some x) upd b = upd x b"
  by (simp_all add: set_opt_def)

lemma initializeFromCmdArgs_running:
  assumes "queue_processing_thread b"
  shows "initializeFromCmdArgs vm gen_id b = Inl terminate_called"
  using assms
  by (simp add: initializeFromCmdArgs_def Let_def
      set_opt_preserves [where g = queue_processing_thread])

lemma initializeFromCmdArgs_fresh:
  assumes "\<not> queue_processing_thread b"
  shows "\<exists>b'. initializeFromCmdArgs vm gen_id b = Inr b'
           \<and> fileLogLevel b' = fileLogLevel b
           \<and> consoleLogLevel b' = consoleLogLevel b
           \<and> maxLogLevel b' = (case vm_loglevel vm of Some x \<Rightarrow> x | None \<Rightarrow> maxLogLevel b)
           \<and> map_option (\<lambda>l. (levelConsole l, levelFile l)) (loggingObj b')
               = Some (maxLogLevel b', maxLogLevel b')"
  using assms
  by (cases "vm_loglevel vm")
     (simp_all add: initializeFromCmdArgs_def Let_def set_opt_simps
       set_opt_preserves [where g = queue_processing_thread]
       set_opt_preserves [where g = fileLogLevel]
       set_opt_preserves [where g = consoleLogLevel]
       set_opt_preserves [where g = maxLogLevel]
       startLogging_levels_def openFile_def Logger_new_def)

lemma setLogLevels_maxLogLevel:
  "consoleLogLevel (setLogLevels c f b) = c \<and> fileLogLevel (setLogLevels c f b) = f
   \<and> maxLogLevel (setLogLevels c f b) = max c f"
  by (simp add: setLogLevels_def Let_def split: option.split)

text \<open>
  Claim C7. Supplying \<open>fileloglevel\<close> and \<open>consoleloglevel\<close> should set the file and the
  console logging level. \<open>argumentParser\<close> registers both options, but
  \<open>initializeFromCmdArgs\<close> never reads them: whatever values they are given, the
  outcome of the intake is the one without them. On a broker whose dispatcher thread
  does not run yet the intake returns with \<open>fileLogLevel\<close> and \<open>consoleLogLevel\<close> as
  they were before, with \<open>maxLogLevel\<close> taken from \<open>loglevel\<close> alone and with the
  logging object started at \<open>(maxLogLevel, maxLogLevel)\<close>; on a broker whose thread
  already runs it terminates the program. After \<open>--fileloglevel 3 --consoleloglevel 0\<close>
  on the fresh broker, whose levels are all 1, the two levels are still 1 and the
  logging object has been started with the levels \<open>(1, 1)\<close>.
\<close>

theorem initializeFromCmdArgs_ignores_file_console_levels:
  "initializeFromCmdArgs (vm \<lparr> vm_fileloglevel := f, vm_consoleloglevel := c \<rparr>) gen_id b
     = initializeFromCmdArgs vm gen_id b
   \<and> (if queue_processing_thread b
       then initializeFromCmdArgs vm gen_id b = Inl terminate_called
       else (\<exists>b'. initializeFromCmdArgs vm gen_id b = Inr b'
               \<and> fileLogLevel b' = fileLogLevel b
               \<and> consoleLogLevel b' = consoleLogLevel b
               \<and> maxLogLevel b'
                   = (case vm_loglevel vm of Some x \<Rightarrow> x | None \<Rightarrow> maxLogLevel b)
               \<and> map_option (\<lambda>l. (levelConsole l, levelFile l)) (loggingObj b')
                   = Some (maxLogLevel b', maxLogLevel b')))
   \<and> (\<exists>b'. initializeFromCmdArgs file_and_console_levels gen_id fresh_broker = Inr b'
           \<and> fileLogLevel b' = 1 \<and> consoleLogLevel b' = 1 \<and> maxLogLevel b' = 1
           \<and> map_option (\<lambda>l. (levelConsole l, levelFile l)) (loggingObj b') = Some (1, 1))"
proof (intro conjI)
  show "initializeFromCmdArgs (vm \<lparr> vm_fileloglevel := f, vm_consoleloglevel := c \<rparr>) gen_id b
     = initializeFromCmdArgs vm gen_id b"
    by (simp add: initializeFromCmdArgs_def)
next
  show "if queue_processing_thread b
       then initializeFromCmdArgs vm gen_id b = Inl terminate_called
       else (\<exists>b'. initializeFromCmdArgs vm gen_id b = Inr b'
               \<and> fileLogLevel b' = fileLogLevel b
               \<and> consoleLogLevel b' = consoleLogLevel b
               \<and> maxLogLevel b'
                   = (case vm_loglevel vm of Some x \<Rightarrow> x | None \<Rightarrow> maxLogLevel b)
               \<and> map_option (\<lambda>l. (levelConsole l, levelFile l)) (loggingObj b')
                   = Some (maxLogLevel b', maxLogLevel b'))"
  proof (cases "queue_processing_thread b")
    case True
    with initializeFromCmdArgs_running [OF True, of vm gen_id] show ?thesis by simp
  next
    case False
    with initializeFromCmdArgs_fresh [OF False, of vm gen_id] show ?thesis by simp
  qed
next
  have fresh: "\<not> queue_processing_thread fresh_broker"
    and levels: "fileLogLevel fresh_broker = 1" "consoleLogLevel fresh_broker = 1"
      "maxLogLevel fresh_broker = 1"
    by (simp_all add: fresh_broker_def)
  have none: "vm_loglevel file_and_console_levels = None"
    by (simp add: file_and_console_levels_def no_options_def)
  from initializeFromCmdArgs_fresh [OF fresh, of file_and_console_levels gen_id]
  show "\<exists>b'. initializeFromCmdArgs file_and_console_levels gen_id fresh_broker = Inr b'
           \<and> fileLogLevel b' = 1 \<and> consoleLogLevel b' = 1 \<and> maxLogLevel b' = 1
           \<and> map_option (\<lambda>l. (levelConsole l, levelFile l)) (loggingObj b') = Some (1, 1)"
    by (auto simp add: levels none)
qed


lemma sendToLogger_result:
  "fst (sendToLogger fed lvl name msg b) = (fed = 0 \<or> fed = global_broker_id b)"
  by (simp add: sendToLogger_def split: option.split)

lemma sendToLogger_loggerCalls:
  "loggerCalls (snd (sendToLogger fed lvl name msg b))
     = loggerCalls b
       @ (if (fed = 0 \<or> fed = global_broker_id b) \<and> lvl \<le> maxLogLevel b \<and> loggerFunction b
          then [(lvl, name, msg)] else [])"
  by (simp add: sendToLogger_def split: option.split)

lemma sendToLogger_loggingObj:
  "loggingObj (snd (sendToLogger fed lvl name msg b))
     = map_option
         (\<lambda>l. l \<lparr> logged := logged l
            @ (if (fed = 0 \<or> fed = global_broker_id b) \<and> lvl \<le> maxLogLevel b
                  \<and> \<not> loggerFunction b
               then [(lvl, name @ ''::'' @ msg)] else []) \<rparr>)
         (loggingObj b)"
  by (cases "loggingObj b") (simp_all add: sendToLogger_def log_def)

lemma setLoggerFunction_installed:
  "\<exists>b'. setLoggerFunction True b = Inr b' \<and> loggerFunction b'
        \<and> map_option running (loggingObj b') = map_option (\<lambda>l. False) (loggingObj b)"
  by (cases "loggingObj b")
     (simp_all add: setLoggerFunction_def Let_def isRunning_def haltLogging_def)

text \<open>
  Claim C6. \<open>sendToLogger (fed_id, level, name, msg)\<close> returns true if and only if
  \<open>fed_id\<close> is 0 or equals \<open>global_broker_id\<close>, and has no effect otherwise or when the
  level is above \<open>maxLogLevel\<close>. When it proceeds with a level that is not above
  \<open>maxLogLevel\<close>, an installed logger function receives \<open>(level, name, msg)\<close> and the
  logging object receives nothing; without a logger function the logging object
  receives \<open>(level, name + "::" + msg)\<close>. Installing a logger function leaves the
  logging object halted.
\<close>

theorem sendToLogger_routing:
  "fst (sendToLogger fed lvl name msg b) = (fed = 0 \<or> fed = global_broker_id b)
   \<and> loggerCalls (snd (sendToLogger fed lvl name msg b))
       = loggerCalls b
         @ (if (fed = 0 \<or> fed = global_broker_id b) \<and> lvl \<le> maxLogLevel b
               \<and> loggerFunction b
            then [(lvl, name, msg)] else [])
   \<and> loggingObj (snd (sendToLogger fed lvl name msg b))
       = map_option
           (\<lambda>l. l \<lparr> logged := logged l
              @ (if (fed = 0 \<or> fed = global_broker_id b) \<and> lvl \<le> maxLogLevel b
                    \<and> \<not> loggerFunction b
                 then [(lvl, name @ ''::'' @ msg)] else []) \<rparr>)
           (loggingObj b)
   \<and> (\<exists>b'. setLoggerFunction True b = Inr b' \<and> loggerFunction b'
          \<and> map_option running (loggingObj b') = map_option (\<lambda>l. False) (loggingObj b))"
  using sendToLogger_result [of fed lvl name msg b]
    sendToLogger_loggerCalls [of fed lvl name msg b]
    sendToLogger_loggingObj [of fed lvl name msg b]
    setLoggerFunction_installed [of b]
  by blast

text \<open>
  Claim C10. For every call of \<open>sendToLogger\<close> whose federate id is 0 or equals
  \<open>global_broker_id\<close>, the result is true also when the level is above \<open>maxLogLevel\<close>
  and the message is dropped, the broker and its loggers being left as they were. The
  result is false exactly for the other federate ids, whatever the level: it does not
  tell a dropped message from a logged one.
\<close>

theorem sendToLogger_true_when_dropped:
  assumes "fed = 0 \<or> fed = global_broker_id b"
    and "maxLogLevel b < lvl"
  shows "sendToLogger fed lvl name msg b = (True, b)
         \<and> fst (sendToLogger fed lvl' name' msg' b) = True
         \<and> (fst (sendToLogger fed' lvl' name' msg' b) = False)
             = (fed' \<noteq> 0 \<and> fed' \<noteq> global_broker_id b)"
  using assms by (simp add: sendToLogger_def split: option.split)

theorem sendToLogger_true_when_dropped_witness:
  "((0::int) = 0 \<or> 0 = global_broker_id example_broker)
   \<and> maxLogLevel example_broker < 5
   \<and> sendToLogger 0 5 ''core'' ''dropped'' example_broker = (True, example_broker)
   \<and> fst (sendToLogger 0 1 ''core'' ''logged'' example_broker) = True
   \<and> (fst (sendToLogger 3 1 ''core'' ''logged'' example_broker) = False)
       = ((3::int) \<noteq> 0 \<and> 3 \<noteq> global_broker_id example_broker)"
proof -
  have h1: "(0::int) = 0 \<or> 0 = global_broker_id example_broker" by simp
  have h2: "maxLogLevel example_broker < 5" by (simp add: example_broker_def)
  show ?thesis
    using h1 h2
      sendToLogger_true_when_dropped [OF h1 h2, of "''core''" "''dropped''" 1 "''core''" "''logged''" 3]
    by simp
qed

section \<open>Properties of the dispatcher loop\<close>

lemmas step_defs =
  emit_def arm_timer_def cancel_timer_def run_service_def release_service_def
  store_mainLoopIsRunning_def store_active_def

lemma logDump_fields:
  "events (logDump pp s) = events s"
  "messagesSinceLastTick (logDump pp s) = messagesSinceLastTick s"
  "mainLoopIsRunning (logDump pp s) = mainLoopIsRunning s"
  "active (logDump pp s) = active s"
  "timer_pending (logDump pp s) = timer_pending s"
  "serviceLoop (logDump pp s) = serviceLoop s"
  "dumpMessages (logDump pp s) = dumpMessages s"
  by (simp_all add: logDump_def)

lemma hook_ticks_append:
  "hook_ticks (es @ fs) = hook_ticks es @ hook_ticks fs"
  by (induction es rule: hook_ticks.induct) simp_all

lemma loop_turn_tick:
  assumes "action command = CMD_TICK"
  shows "\<exists>s'. loop_turn isP pp command halt s = Continue s'
           \<and> events s' = events s
                @ (if messagesSinceLastTick s = 0 then [Call_processCommand command] else [])
                @ (if error_flag \<in> flags command then [ServiceLoopRelease, ServiceLoopRun] else [])
                @ [TimerArm]
           \<and> messagesSinceLastTick s' = 0 \<and> timer_pending s'
           \<and> serviceLoop s' = (serviceLoop s \<or> error_flag \<in> flags command)
           \<and> broker s' = broker s"
  using assms
  by (simp add: loop_turn_def Let_def step_defs CHECK_ACTION_FLAG_def)

lemma loop_turn_domain:
  assumes "action command = CMD_DOMAIN code"
  shows "\<exists>s'. loop_turn isP pp command halt s = Continue s'
           \<and> hook_ticks (events s') = hook_ticks (events s)
           \<and> messagesSinceLastTick s'
               = (if halt then messagesSinceLastTick s else messagesSinceLastTick s + 1)"
  using assms
  by (simp add: loop_turn_def Let_def step_defs hook_ticks_append)

lemma loop_turn_ignore:
  assumes "action command = CMD_IGNORE"
  shows "\<exists>s'. loop_turn isP pp command halt s = Continue s'
           \<and> events s' = events s
           \<and> messagesSinceLastTick s' = messagesSinceLastTick s"
  using assms
  by (simp add: loop_turn_def Let_def)

lemma loop_turn_terminating:
  assumes "terminating command"
  shows "\<exists>s'. loop_turn isP pp command halt s = Return s'
           \<and> hook_ticks (events s') = hook_ticks (events s)"
  using assms
  by (auto simp add: terminating_def loop_turn_def Let_def step_defs logDump_fields
      hook_ticks_append)

text \<open>
  The counter holds the number of counted commands since the last tick, modulo
  \<open>2 ^ 32\<close>; a tick popped with a count between 1 and \<open>2 ^ 31 - 1\<close> finds the counter
  different from 0 and is handed to no hook.
\<close>

lemma run_loop_no_tick_forwarded:
  assumes "messagesSinceLastTick s = of_nat n"
    and "counted_before_each_tick n popped"
  shows "hook_ticks (events (final_state (run_loop isP pp popped s)))
           = hook_ticks (events s)"
  using assms
proof (induction popped arbitrary: s n)
  case Nil
  then show ?case by simp
next
  case (Cons x rest)
  obtain c halt where x: "x = (c, halt)" by (cases x)
  show ?case
  proof (cases "action c")
    case CMD_TICK
    from Cons.prems x CMD_TICK have pos: "0 < n" and small: "n < 2 ^ 31"
      and rest: "counted_before_each_tick 0 rest"
      by simp_all
    from small have "n < 2 ^ LENGTH(32)" by simp
    with pos have "(of_nat n :: 32 word) \<noteq> 0" by (rule of_nat_neq_0)
    with Cons.prems(1) have nz: "messagesSinceLastTick s \<noteq> 0" by simp
    from loop_turn_tick [OF CMD_TICK, of isP pp halt s] obtain s' where
      turn: "loop_turn isP pp c halt s = Continue s'"
      and ev: "events s' = events s
                @ (if messagesSinceLastTick s = 0 then [Call_processCommand c] else [])
                @ (if error_flag \<in> flags c then [ServiceLoopRelease, ServiceLoopRun] else [])
                @ [TimerArm]"
      and cnt: "messagesSinceLastTick s' = 0"
      by blast
    from ev nz have same: "hook_ticks (events s') = hook_ticks (events s)"
      by (simp add: hook_ticks_append)
    from cnt have "messagesSinceLastTick s' = of_nat 0" by simp
    then have "hook_ticks (events (final_state (run_loop isP pp rest s')))
           = hook_ticks (events s')"
      using rest by (rule Cons.IH)
    with same turn x show ?thesis by simp
  next
    case CMD_IGNORE
    from loop_turn_ignore [OF CMD_IGNORE, of isP pp halt s] obtain s' where
      turn: "loop_turn isP pp c halt s = Continue s'"
      and ev: "events s' = events s"
      and cnt: "messagesSinceLastTick s' = messagesSinceLastTick s"
      by blast
    from cnt Cons.prems(1) have "messagesSinceLastTick s' = of_nat n" by simp
    moreover from Cons.prems(2) x CMD_IGNORE have "counted_before_each_tick n rest" by simp
    ultimately have "hook_ticks (events (final_state (run_loop isP pp rest s')))
           = hook_ticks (events s')"
      by (rule Cons.IH)
    with ev turn x show ?thesis by simp
  next
    case CMD_TERMINATE_IMMEDIATELY
    then have "terminating c" by (simp add: terminating_def)
    from loop_turn_terminating [OF this, of isP pp halt s] x show ?thesis by auto
  next
    case CMD_STOP
    then have "terminating c" by (simp add: terminating_def)
    from loop_turn_terminating [OF this, of isP pp halt s] x show ?thesis by auto
  next
    case (CMD_DOMAIN code)
    from loop_turn_domain [OF CMD_DOMAIN, of isP pp halt s] obtain s' where
      turn: "loop_turn isP pp c halt s = Continue s'"
      and ev: "hook_ticks (events s') = hook_ticks (events s)"
      and cnt: "messagesSinceLastTick s'
               = (if halt then messagesSinceLastTick s else messagesSinceLastTick s + 1)"
      by blast
    let ?n = "if halt then n else Suc n"
    from cnt Cons.prems(1) have "messagesSinceLastTick s' = of_nat ?n" by simp
    moreover from Cons.prems(2) x CMD_DOMAIN have "counted_before_each_tick ?n rest" by simp
    ultimately have "hook_ticks (events (final_state (run_loop isP pp rest s')))
           = hook_ticks (events s')"
      by (rule Cons.IH)
    with ev turn x show ?thesis by simp
  qed
qed

lemmas run_defs =
  queueProcessingLoop_def loop_entry_def loop_turn_def Let_def step_defs
  CHECK_ACTION_FLAG_def ActionMessage_of_def logDump_def

text \<open>
  Claim C1, as the spec states it: in a command sequence with at least one non-tick
  command between consecutive ticks, \<open>processCommand\<close> is never called with a tick. It
  fails in three ways. The counter starts at 0, so a tick that is the first command is
  passed on; \<open>CMD_IGNORE\<close> is not counted, so a tick that follows only ignored commands
  is passed on; and a command popped while \<open>haltOperations\<close> is set is not counted
  either. In each of the three runs no two adjacent commands are ticks, and
  \<open>processCommand\<close> is called with a tick.
\<close>

theorem tick_forwarded_counterexample:
  "nontick_between_ticks (map fst lone_tick)
   \<and> processCommand_ticks (events (final_state
        (queueProcessingLoop no_priority pretty_action example_broker lone_tick)))
       = [ActionMessage_of CMD_TICK]
   \<and> nontick_between_ticks (map fst ignore_between_ticks)
   \<and> processCommand_ticks (events (final_state
        (queueProcessingLoop no_priority pretty_action example_broker ignore_between_ticks)))
       = [ActionMessage_of CMD_TICK]
   \<and> nontick_between_ticks (map fst halted_between_ticks)
   \<and> processCommand_ticks (events (final_state
        (queueProcessingLoop no_priority pretty_action example_broker halted_between_ticks)))
       = [ActionMessage_of CMD_TICK]"
  by (simp add: lone_tick_def ignore_between_ticks_def halted_between_ticks_def
      run_defs no_priority_def example_broker_def)

text \<open>
  Claim C1, amended. On a pop of \<open>CMD_TICK\<close> the dispatcher calls \<open>processCommand\<close>
  with the tick if and only if \<open>messagesSinceLastTick\<close> is 0, and otherwise silently
  absorbs it: it calls no hook and leaves the broker as it was; in either case it
  resets the counter and re-arms the timer (after recreating the service loop when the
  tick carries \<open>error_flag\<close>). The counter starts at 0 and counts the commands that reach
  the default branch of the switch while \<open>haltOperations\<close> is false (not \<open>CMD_IGNORE\<close>,
  and not the commands popped while halted). Hence, for any command sequence in which
  at least one counted command, and fewer than \<open>2 ^ 31\<close> of them, come before the first
  tick and between any two consecutive ticks, neither \<open>processCommand\<close> nor
  \<open>processPriorityCommand\<close> is ever called with \<open>CMD_TICK\<close>.
\<close>

theorem tick_forwarded_iff_counter_zero:
  "(action command = CMD_TICK \<longrightarrow>
      (\<exists>s'. loop_turn isP pp command halt s = Continue s'
           \<and> events s' = events s
                @ (if messagesSinceLastTick s = 0 then [Call_processCommand command] else [])
                @ (if error_flag \<in> flags command
                   then [ServiceLoopRelease, ServiceLoopRun] else [])
                @ [TimerArm]
           \<and> broker s' = broker s
           \<and> messagesSinceLastTick s' = 0
           \<and> timer_pending s'))
   \<and> (counted_before_each_tick 0 popped \<longrightarrow>
        hook_ticks (events (final_state (queueProcessingLoop isP pp b popped))) = [])"
proof (intro conjI impI)
  assume tick: "action command = CMD_TICK"
  from loop_turn_tick [OF tick, of isP pp halt s]
  show "\<exists>s'. loop_turn isP pp command halt s = Continue s'
           \<and> events s' = events s
                @ (if messagesSinceLastTick s = 0 then [Call_processCommand command] else [])
                @ (if error_flag \<in> flags command
                   then [ServiceLoopRelease, ServiceLoopRun] else [])
                @ [TimerArm]
           \<and> broker s' = broker s
           \<and> messagesSinceLastTick s' = 0
           \<and> timer_pending s'"
    by blast
next
  assume hyp: "counted_before_each_tick 0 popped"
  have "messagesSinceLastTick (loop_entry b) = of_nat 0"
    by (simp add: loop_entry_def)
  then have
    "hook_ticks (events (final_state (run_loop isP pp popped (loop_entry b))))
       = hook_ticks (events (loop_entry b))"
    using hyp by (rule run_loop_no_tick_forwarded)
  then show "hook_ticks (events (final_state (queueProcessingLoop isP pp b popped))) = []"
    by (simp add: queueProcessingLoop_def loop_entry_def)
qed

theorem tick_forwarded_iff_counter_zero_witness:
  "action (ActionMessage_of CMD_TICK) = CMD_TICK
   \<and> (\<exists>s'. loop_turn no_priority pretty_action (ActionMessage_of CMD_TICK) False
              ((loop_entry example_broker) \<lparr> messagesSinceLastTick := 1 \<rparr>) = Continue s'
           \<and> events s' = events (loop_entry example_broker) @ [TimerArm]
           \<and> broker s' = example_broker
           \<and> messagesSinceLastTick s' = 0
           \<and> timer_pending s')
   \<and> counted_before_each_tick 0 busy_run
   \<and> hook_ticks (events (final_state
        (queueProcessingLoop no_priority pretty_action example_broker busy_run))) = []"
proof -
  have h1: "action (ActionMessage_of CMD_TICK) = CMD_TICK"
    "flags (ActionMessage_of CMD_TICK) = {}"
    by (simp_all add: ActionMessage_of_def)
  have h2: "counted_before_each_tick 0 busy_run"
    by (simp add: busy_run_def ActionMessage_of_def)
  have h3: "broker (loop_entry example_broker) = example_broker"
    by (simp add: loop_entry_def)
  show ?thesis
    using h1 h2 h3
      tick_forwarded_iff_counter_zero [where command = "ActionMessage_of CMD_TICK"
        and isP = no_priority and pp = pretty_action and halt = False
        and s = "(loop_entry example_broker) \<lparr> messagesSinceLastTick := 1 \<rparr>"
        and popped = busy_run and b = example_broker]
    by simp
qed

lemma timerTickHandler_active_aborted:
  "timerTickHandler isP None True operation_aborted q
     = Inr (if isP (SET_ACTION_FLAG (ActionMessage_of CMD_TICK) error_flag)
            then q \<lparr> priorityLane := priorityLane q
                     @ [SET_ACTION_FLAG (ActionMessage_of CMD_TICK) error_flag] \<rparr>
            else q \<lparr> normalLane := normalLane q
                     @ [SET_ACTION_FLAG (ActionMessage_of CMD_TICK) error_flag] \<rparr>, [])"
  by (simp add: timerTickHandler_def addActionMessage_def push_def pushPriority_def Let_def)

lemma timerTickHandler_active_aborted_throws:
  "timerTickHandler isP (Some e) True operation_aborted q = Inl e"
  by (simp add: timerTickHandler_def addActionMessage_def push_def pushPriority_def Let_def)

text \<open>
  Claim C3. On teardown the guarded flag should be set to false before the tick timer
  is cancelled, so that the callback of the cancelled wait finds the flag inactive and
  enqueues nothing. The code does it the other way round on both teardown paths:
  after a lone \<open>CMD_TERMINATE_IMMEDIATELY\<close> and after a lone \<open>CMD_STOP\<close> the
  cancellation comes first and the store of false to the flag last, on \<open>CMD_STOP\<close> with
  the call of \<open>processCommand\<close> in between. The cancellation is what completes the
  pending wait with \<open>operation_aborted\<close>; a callback that runs right after it, or
  during that \<open>processCommand\<close>, reads the flag as true, enqueues a \<open>CMD_TICK\<close> with
  \<open>error_flag\<close>, and lets an exception of the enqueue escape, the call standing
  outside any \<open>try\<close> block.
\<close>

theorem teardown_cancel_precedes_flag_store:
  "events (final_state (queueProcessingLoop isP pp b terminate_only))
     = events (loop_entry b)
       @ [TimerCancel, ServiceLoopRelease, StoreMainLoopIsRunning False, StoreActive False]
   \<and> events (final_state (queueProcessingLoop isP pp b stop_only))
     = events (loop_entry b)
       @ [TimerCancel, ServiceLoopRelease, Call_processCommand (ActionMessage_of CMD_STOP),
          StoreMainLoopIsRunning False, StoreActive False, Call_processDisconnect]
   \<and> occurs_before TimerCancel (StoreActive False)
        (events (final_state (queueProcessingLoop isP pp b terminate_only)))
   \<and> \<not> occurs_before (StoreActive False) TimerCancel
        (events (final_state (queueProcessingLoop isP pp b terminate_only)))
   \<and> occurs_before TimerCancel (StoreActive False)
        (events (final_state (queueProcessingLoop isP pp b stop_only)))
   \<and> \<not> occurs_before (StoreActive False) TimerCancel
        (events (final_state (queueProcessingLoop isP pp b stop_only)))
   \<and> active (cancel_timer (loop_entry b))
   \<and> active (emit (Call_processCommand (ActionMessage_of CMD_STOP))
        (release_service (cancel_timer (loop_entry b))))
   \<and> timerTickHandler isP None (active (cancel_timer (loop_entry b))) operation_aborted q
       = Inr (if isP (SET_ACTION_FLAG (ActionMessage_of CMD_TICK) error_flag)
              then q \<lparr> priorityLane := priorityLane q
                       @ [SET_ACTION_FLAG (ActionMessage_of CMD_TICK) error_flag] \<rparr>
              else q \<lparr> normalLane := normalLane q
                       @ [SET_ACTION_FLAG (ActionMessage_of CMD_TICK) error_flag] \<rparr>, [])
   \<and> timerTickHandler isP (Some e) (active (cancel_timer (loop_entry b)))
        operation_aborted q = Inl e
   \<and> timerTickHandler isP fault
        (active (final_state (queueProcessingLoop isP pp b terminate_only))) err q
       = Inr (q, [])"
proof -
  have ev1: "events (final_state (queueProcessingLoop isP pp b terminate_only))
     = events (loop_entry b)
       @ [TimerCancel, ServiceLoopRelease, StoreMainLoopIsRunning False, StoreActive False]"
    and off: "\<not> active (final_state (queueProcessingLoop isP pp b terminate_only))"
    by (simp_all add: terminate_only_def queueProcessingLoop_def loop_turn_def Let_def
        step_defs logDump_fields ActionMessage_of_def)
  have ev2: "events (final_state (queueProcessingLoop isP pp b stop_only))
     = events (loop_entry b)
       @ [TimerCancel, ServiceLoopRelease, Call_processCommand (ActionMessage_of CMD_STOP),
          StoreMainLoopIsRunning False, StoreActive False, Call_processDisconnect]"
    by (simp add: stop_only_def queueProcessingLoop_def loop_turn_def Let_def
        step_defs logDump_fields ActionMessage_of_def)
  have on: "active (cancel_timer (loop_entry b))"
    "active (emit (Call_processCommand (ActionMessage_of CMD_STOP))
        (release_service (cancel_timer (loop_entry b))))"
    by (simp_all add: step_defs loop_entry_def)
  have order:
    "occurs_before TimerCancel (StoreActive False)
        (events (final_state (queueProcessingLoop isP pp b terminate_only)))"
    "\<not> occurs_before (StoreActive False) TimerCancel
        (events (final_state (queueProcessingLoop isP pp b terminate_only)))"
    "occurs_before TimerCancel (StoreActive False)
        (events (final_state (queueProcessingLoop isP pp b stop_only)))"
    "\<not> occurs_before (StoreActive False) TimerCancel
        (events (final_state (queueProcessingLoop isP pp b stop_only)))"
    unfolding ev1 ev2 by (simp_all add: loop_entry_def)
  have quiet: "timerTickHandler isP fault
        (active (final_state (queueProcessingLoop isP pp b terminate_only))) err q
       = Inr (q, [])"
    using off by (simp add: timerTickHandler_def)
  show ?thesis
    using ev1 ev2 order quiet
    by (simp add: on timerTickHandler_active_aborted timerTickHandler_active_aborted_throws)
qed














end
